theory Spec2Isabelle
  imports Complex_Main "HOL-Library.AList" "HOL-Library.Sublist"
begin

section \<open>JavaScript values\<close>

text \<open>
  The two proxies (\<^verbatim>\<open>src/jimeng2opendraw.ts\<close>, called the jimeng variant, and the
  second source file, called the xAI variant) are Deno request handlers. The values they
  handle are JavaScript values: the parsed JSON body of a request, and the objects the
  handlers build from it.

  A number is an IEEE double: a finite value (kept as the rational it denotes, the two
  zeros identified), an infinity, or NaN. An object keeps its properties in insertion
  order, as JavaScript does for string keys.
\<close>

datatype number = NaN | PosInfinity | NegInfinity | Finite rat

datatype jsval =
    JUndefined
  | JNull
  | JBool bool
  | JNum number
  | JStr string
  | JArr "jsval list"
  | JObj "(string \<times> jsval) list"

type_synonym object = "(string \<times> jsval) list"

text \<open>An exception is an error object with a name and a message (\<^verbatim>\<open>error.message\<close>).\<close>

datatype exn = Exn (ename: string) (message: string)

text \<open>
  \<^verbatim>\<open>!v\<close> is the negation of JavaScript's ToBoolean: undefined, null, false, both zeros,
  NaN and the empty string are falsy, every other value is truthy.
\<close>

fun truthy :: "jsval \<Rightarrow> bool" where
  "truthy JUndefined = False"
| "truthy JNull = False"
| "truthy (JBool b) = b"
| "truthy (JNum n) = (n \<noteq> NaN \<and> n \<noteq> Finite 0)"
| "truthy (JStr s) = (s \<noteq> [])"
| "truthy (JArr xs) = True"
| "truthy (JObj kvs) = True"

text \<open>
  \<^verbatim>\<open>o[k]\<close> and \<^verbatim>\<open>o.k\<close>, for the property names the handlers read (the names of the two
  allow-lists). Reading a property of null or undefined throws a TypeError. An object
  parsed from JSON has its own properties only, besides those of \<^verbatim>\<open>Object.prototype\<close>;
  a string, a number, a boolean or an array has none of the names read here, so the
  lookup gives undefined.
\<close>

fun read_prop :: "jsval \<Rightarrow> string \<Rightarrow> exn + jsval" where
  "read_prop JUndefined k =
     Inl (Exn ''TypeError'' (''Cannot read properties of undefined (reading '' @ [CHR 0x27] @ k @ [CHR 0x27] @ '')''))"
| "read_prop JNull k =
     Inl (Exn ''TypeError'' (''Cannot read properties of null (reading '' @ [CHR 0x27] @ k @ [CHR 0x27] @ '')''))"
| "read_prop (JObj kvs) k = Inr (case map_of kvs k of None \<Rightarrow> JUndefined | Some v \<Rightarrow> v)"
| "read_prop (JBool b) k = Inr JUndefined"
| "read_prop (JNum n) k = Inr JUndefined"
| "read_prop (JStr s) k = Inr JUndefined"
| "read_prop (JArr xs) k = Inr JUndefined"

text \<open>Reading a property of an object the handler built itself (\<^verbatim>\<open>filteredBody.model\<close>).\<close>

definition get_prop :: "object \<Rightarrow> string \<Rightarrow> jsval" where
  "get_prop ob k = (case map_of ob k of None \<Rightarrow> JUndefined | Some v \<Rightarrow> v)"

text \<open>
  \<^verbatim>\<open>ob[k] = v\<close>: an existing property keeps its place and takes the new value, a new
  property goes to the end.
\<close>

definition set_prop :: "object \<Rightarrow> string \<Rightarrow> jsval \<Rightarrow> object" where
  "set_prop ob k v = AList.update k v ob"

section \<open>Strings\<close>

text \<open>\<^verbatim>\<open>s.includes(t)\<close>: \<open>t\<close> occurs in \<open>s\<close> as a contiguous substring.\<close>

fun str_includes :: "string \<Rightarrow> string \<Rightarrow> bool" where
  "str_includes [] t = (t = [])"
| "str_includes (c # cs) t = (prefix t (c # cs) \<or> str_includes cs t)"

text \<open>\<^verbatim>\<open>s.startsWith(t)\<close>.\<close>

definition startsWith :: "string \<Rightarrow> string \<Rightarrow> bool" where
  "startsWith s t = prefix t s"

text \<open>Byte-lowercasing, by which header names are compared.\<close>

definition lower_char :: "char \<Rightarrow> char" where
  "lower_char c =
     (case map_of (zip ''ABCDEFGHIJKLMNOPQRSTUVWXYZ'' ''abcdefghijklmnopqrstuvwxyz'') c of
        None \<Rightarrow> c
      | Some d \<Rightarrow> d)"

definition lowercase :: "string \<Rightarrow> string" where
  "lowercase s = map lower_char s"

section \<open>Headers, bodies, requests and responses\<close>

text \<open>
  A \<^verbatim>\<open>Headers\<close> object is a list of name/value pairs. Names are matched without regard
  to case. \<^verbatim>\<open>get\<close> joins the values of all entries of a name with a comma and a space;
  \<^verbatim>\<open>set\<close> leaves one entry of the name; \<^verbatim>\<open>delete\<close> removes the entries of the name.
  The position of an entry among entries of other names is not observable (iteration is
  sorted by name), so \<^verbatim>\<open>set\<close> puts the new entry last.
\<close>

type_synonym headers = "(string \<times> string) list"

definition same_name :: "string \<Rightarrow> string \<Rightarrow> bool" where
  "same_name a b = (lowercase a = lowercase b)"

fun join_values :: "string list \<Rightarrow> string" where
  "join_values [] = []"
| "join_values [v] = v"
| "join_values (v # w # vs) = v @ '', '' @ join_values (w # vs)"

definition headers_get :: "headers \<Rightarrow> string \<Rightarrow> string option" where
  "headers_get hs name =
     (case filter (\<lambda>h. same_name (fst h) name) hs of
        [] \<Rightarrow> None
      | h # rest \<Rightarrow> Some (join_values (map snd (h # rest))))"

definition headers_delete :: "headers \<Rightarrow> string \<Rightarrow> headers" where
  "headers_delete hs name = filter (\<lambda>h. \<not> same_name (fst h) name) hs"

definition headers_append :: "headers \<Rightarrow> string \<Rightarrow> string \<Rightarrow> headers" where
  "headers_append hs name v = hs @ [(name, v)]"

definition headers_set :: "headers \<Rightarrow> string \<Rightarrow> string \<Rightarrow> headers" where
  "headers_set hs name v = headers_append (headers_delete hs name) name v"

text \<open>
  \<^verbatim>\<open>new Headers(init)\<close> appends the entries of \<open>init\<close> (a record of names and values, or
  another \<^verbatim>\<open>Headers\<close> object) to a fresh, empty list.
\<close>

definition new_Headers :: "(string \<times> string) list \<Rightarrow> headers" where
  "new_Headers init = foldl (\<lambda>hs h. headers_append hs (fst h) (snd h)) [] init"

text \<open>\<^verbatim>\<open>x || ''\<close> for the result of \<^verbatim>\<open>headers.get\<close>: null and the empty string give \<open>''\<close>.\<close>

definition or_empty :: "string option \<Rightarrow> string" where
  "or_empty x = (case x of None \<Rightarrow> [] | Some v \<Rightarrow> (if v = [] then [] else v))"

text \<open>
  A body is absent (null or undefined), a string the handler wrote, the text
  \<^verbatim>\<open>JSON.stringify\<close> gives for a value (kept as that value: the serialisation itself is
  not modelled), or a stream of bytes received from the network.
\<close>

datatype body = NoBody | Text string | JSON_stringify jsval | Stream string

record url =
  protocol :: string
  host :: string
  pathname :: string
  searchParams :: "(string \<times> string) list"

record request =
  "method" :: string
  url :: url
  headers :: headers
  body :: body

record response =
  status :: nat
  statusText :: string
  headers :: headers
  body :: body

section \<open>The runtime\<close>

text \<open>
  What the handlers call and do not define: \<^verbatim>\<open>request.clone().json()\<close>, whose outcome
  (the parsed value, or the exception of a malformed body) is a function of the inbound
  body; \<^verbatim>\<open>fetch\<close>, which answers an outbound request with a response or raises; and the
  validation the \<^verbatim>\<open>Request\<close> constructor performs on its arguments (a forbidden method, for
  example), which may raise.
\<close>

record env =
  json :: "body \<Rightarrow> exn + jsval"
  fetch :: "request \<Rightarrow> exn + response"
  request_check :: "request \<Rightarrow> exn option"

definition new_Request :: "env \<Rightarrow> request \<Rightarrow> exn + request" where
  "new_Request env init =
     (case request_check env init of
        Some e \<Rightarrow> Inl e
      | None \<Rightarrow> Inr init)"

text \<open>
  \<^verbatim>\<open>new Response(body, {status, statusText, headers})\<close>, with the two checks of Deno's
  constructor that depend on these arguments: a status outside 200..599 other than 101 is
  a RangeError, and a body together with a null-body status is a TypeError. The messages
  are abridged.
\<close>

definition new_Response :: "body \<Rightarrow> nat \<Rightarrow> string \<Rightarrow> headers \<Rightarrow> exn + response" where
  "new_Response b st stt hs =
     (if (st < 200 \<or> 599 < st) \<and> st \<noteq> 101 then
        Inl (Exn ''RangeError''
               ''The status provided is not equal to 101 and outside the range [200, 599]'')
      else if b \<noteq> NoBody \<and> st \<in> set [101, 103, 204, 205, 304] then
        Inl (Exn ''TypeError'' ''Response with null body status cannot have body'')
      else
        Inr \<lparr>status = st, statusText = stt, headers = hs, body = b\<rparr>)"

text \<open>
  \<^verbatim>\<open>new URL(`https://${host}${pathname}`)\<close>, for the path of a parsed URL: the result has
  that path and no query.
\<close>

definition new_URL_https :: "string \<Rightarrow> string \<Rightarrow> url" where
  "new_URL_https h p = \<lparr>protocol = ''https:'', host = h, pathname = p, searchParams = []\<rparr>"

definition searchParams_append :: "url \<Rightarrow> string \<Rightarrow> string \<Rightarrow> url" where
  "searchParams_append u k v = u\<lparr>searchParams := searchParams u @ [(k, v)]\<rparr>"

text \<open>
  A handler returns the outbound requests it passed to \<^verbatim>\<open>fetch\<close>, in order, and either
  the response it returns or the exception it raises.
\<close>

type_synonym outcome = "request list \<times> (exn + response)"

section \<open>What the two variants share\<close>

definition IMAGE_GENERATION_PATH :: string where
  "IMAGE_GENERATION_PATH = ''/v1/images/generations''"

definition PREFLIGHT_CORS_HEADERS :: "(string \<times> string) list" where
  "PREFLIGHT_CORS_HEADERS =
     [(''Access-Control-Allow-Origin'', ''*''),
      (''Access-Control-Allow-Methods'', ''GET, POST, PUT, DELETE, OPTIONS''),
      (''Access-Control-Allow-Headers'', ''Content-Type, Authorization, X-Requested-With''),
      (''Access-Control-Max-Age'', ''86400'')]"

definition SUCCESS_CORS_HEADERS :: "(string \<times> string) list" where
  "SUCCESS_CORS_HEADERS = [(''Access-Control-Allow-Origin'', ''*'')]"

definition handleCorsPreflight :: "exn + response" where
  "handleCorsPreflight = new_Response NoBody 204 [] (new_Headers PREFLIGHT_CORS_HEADERS)"

definition addCorsHeaders :: "headers \<Rightarrow> headers" where
  "addCorsHeaders hs = foldl (\<lambda>h kv. headers_set h (fst kv) (snd kv)) hs SUCCESS_CORS_HEADERS"

text \<open>
  The three statements every error path of both files repeats: fresh headers with a
  content type, \<^verbatim>\<open>addCorsHeaders\<close>, and a response with the given body and status.
\<close>

definition errorResponse :: "string \<Rightarrow> body \<Rightarrow> nat \<Rightarrow> exn + response" where
  "errorResponse contentType b st =
     new_Response b st [] (addCorsHeaders (new_Headers [(''Content-Type'', contentType)]))"

definition jsonError :: "string \<Rightarrow> nat \<Rightarrow> exn + response" where
  "jsonError msg st =
     errorResponse ''application/json'' (JSON_stringify (JObj [(''error'', JStr msg)])) st"

text \<open>
  The filtering loop of \<^verbatim>\<open>handleImageGenerationRequest\<close>, over the allow-list, with the
  object built so far:
  \<^verbatim>\<open>for (const param of SUPPORTED_IMAGE_PARAMS)
    if (originalBody[param] !== undefined) filteredBody[param] = originalBody[param];\<close>
\<close>

fun filterParams :: "string list \<Rightarrow> jsval \<Rightarrow> object \<Rightarrow> exn + object" where
  "filterParams [] originalBody filteredBody = Inr filteredBody"
| "filterParams (param # params) originalBody filteredBody =
     (case read_prop originalBody param of
        Inl e \<Rightarrow> Inl e
      | Inr v \<Rightarrow>
          filterParams params originalBody
            (if v \<noteq> JUndefined then set_prop filteredBody param v else filteredBody))"

text \<open>
  The target of a forwarded request: the upstream host with the inbound path, then
  \<^verbatim>\<open>url.searchParams.forEach((value, key) => targetUrl.searchParams.append(key, value))\<close>.
\<close>

definition buildTargetUrl :: "string \<Rightarrow> url \<Rightarrow> url" where
  "buildTargetUrl upstream u =
     foldl (\<lambda>targetUrl kv. searchParams_append targetUrl (fst kv) (snd kv))
       (new_URL_https upstream (pathname u)) (searchParams u)"

text \<open>
  The guarded block at the end of \<^verbatim>\<open>handleImageGenerationRequest\<close>: \<^verbatim>\<open>fetch\<close>, then the
  upstream response relayed with the CORS header and a JSON content type. It raises
  what \<^verbatim>\<open>fetch\<close> or the \<^verbatim>\<open>Response\<close> constructor raises.
\<close>

definition relayImageResponse :: "env \<Rightarrow> request \<Rightarrow> exn + response" where
  "relayImageResponse env apiRequest =
     (case fetch env apiRequest of
        Inl e \<Rightarrow> Inl e
      | Inr apiResponse \<Rightarrow>
          (let responseHeaders = new_Headers (response.headers apiResponse);
               responseHeaders = addCorsHeaders responseHeaders;
               responseHeaders = headers_set responseHeaders ''Content-Type'' ''application/json''
           in new_Response (response.body apiResponse) (status apiResponse)
                (statusText apiResponse) responseHeaders))"

section \<open>The jimeng variant\<close>

definition TARGET_API_HOST :: string where
  "TARGET_API_HOST = ''sejktjafstpl.us-east-1.clawcloudrun.com''"

definition SUPPORTED_IMAGE_PARAMS_jimeng :: "string list" where
  "SUPPORTED_IMAGE_PARAMS_jimeng =
     [''model'', ''prompt'', ''negativePrompt'', ''width'', ''height'', ''sample_strength'']"

text \<open>
  The five defaulting statements that follow the filtering loop:
  \<^verbatim>\<open>if (!filteredBody.model) filteredBody.model = 'jimeng-3.0';
  if (!filteredBody.negativePrompt) filteredBody.negativePrompt = '';
  if (!filteredBody.width) filteredBody.width = 1024;
  if (!filteredBody.height) filteredBody.height = 1024;
  if (filteredBody.sample_strength === undefined) filteredBody.sample_strength = 0.5;\<close>
\<close>

definition applyDefaults :: "object \<Rightarrow> object" where
  "applyDefaults filteredBody =
     (let fb = (if \<not> truthy (get_prop filteredBody ''model'')
                then set_prop filteredBody ''model'' (JStr ''jimeng-3.0'') else filteredBody);
          fb = (if \<not> truthy (get_prop fb ''negativePrompt'')
                then set_prop fb ''negativePrompt'' (JStr []) else fb);
          fb = (if \<not> truthy (get_prop fb ''width'')
                then set_prop fb ''width'' (JNum (Finite 1024)) else fb);
          fb = (if \<not> truthy (get_prop fb ''height'')
                then set_prop fb ''height'' (JNum (Finite 1024)) else fb);
          fb = (if get_prop fb ''sample_strength'' = JUndefined
                then set_prop fb ''sample_strength'' (JNum (Finite (1 / 2))) else fb)
      in fb)"

definition handleImageGenerationRequest_jimeng :: "env \<Rightarrow> request \<Rightarrow> url \<Rightarrow> outcome" where
  "handleImageGenerationRequest_jimeng env request targetUrl =
     (let contentType = or_empty (headers_get (request.headers request) ''Content-Type'') in
      if \<not> str_includes contentType ''application/json'' then
        ([], jsonError ''Unsupported Content-Type. Please use application/json'' 400)
      else
        (case json env (request.body request) of
           Inl e \<Rightarrow> ([], jsonError ''Invalid JSON body'' 400)
         | Inr originalBody \<Rightarrow>
             (case read_prop originalBody ''prompt'' of
                Inl e \<Rightarrow> ([], Inl e)
              | Inr prompt \<Rightarrow>
                  if \<not> truthy prompt then
                    ([], jsonError ''Missing required parameter: prompt'' 400)
                  else
                    (case filterParams SUPPORTED_IMAGE_PARAMS_jimeng originalBody [] of
                       Inl e \<Rightarrow> ([], Inl e)
                     | Inr filteredBody \<Rightarrow>
                         (let filteredBody = applyDefaults filteredBody;
                              apiRequestHeaders = new_Headers
                                [(''Content-Type'', ''application/json''),
                                 (''Authorization'',
                                  or_empty (headers_get (request.headers request) ''Authorization''))]
                          in case new_Request env
                                    \<lparr>method = ''POST'', url = targetUrl,
                                     headers = apiRequestHeaders,
                                     body = JSON_stringify (JObj filteredBody)\<rparr> of
                               Inl e \<Rightarrow> ([], Inl e)
                             | Inr apiRequest \<Rightarrow>
                                 ([apiRequest],
                                  case relayImageResponse env apiRequest of
                                    Inl error \<Rightarrow>
                                      jsonError (''Error fetching from API: '' @ message error) 502
                                  | Inr r \<Rightarrow> Inr r))))))"

text \<open>The body of the \<^verbatim>\<open>try\<close> block of \<^verbatim>\<open>handleRequest\<close>.\<close>

definition handleRequest_try_jimeng :: "env \<Rightarrow> request \<Rightarrow> outcome" where
  "handleRequest_try_jimeng env request =
     (let u = url request in
      if pathname u = IMAGE_GENERATION_PATH \<and> method request = ''POST'' then
        handleImageGenerationRequest_jimeng env request (buildTargetUrl TARGET_API_HOST u)
      else
        ([], errorResponse ''text/plain'' (Text ''Not Found'') 404))"

definition handleRequest_jimeng :: "env \<Rightarrow> request \<Rightarrow> outcome" where
  "handleRequest_jimeng env request =
     (if method request = ''OPTIONS'' then ([], handleCorsPreflight)
      else
        (case handleRequest_try_jimeng env request of
           (calls, Inl error) \<Rightarrow>
             (calls, jsonError (''Internal Server Error: '' @ message error) 500)
         | (calls, Inr r) \<Rightarrow> (calls, Inr r)))"

section \<open>The xAI variant\<close>

definition XAI_API_HOST :: string where
  "XAI_API_HOST = ''api.x.ai''"

definition SUPPORTED_IMAGE_PARAMS_xai :: "string list" where
  "SUPPORTED_IMAGE_PARAMS_xai = [''model'', ''prompt'', ''n'', ''response_format'']"

definition handleImageGenerationRequest_xai :: "env \<Rightarrow> request \<Rightarrow> url \<Rightarrow> outcome" where
  "handleImageGenerationRequest_xai env request targetUrl =
     (let contentType = or_empty (headers_get (request.headers request) ''Content-Type'') in
      if \<not> str_includes contentType ''application/json'' then
        ([], jsonError ''Unsupported Content-Type. Please use application/json'' 400)
      else
        (case json env (request.body request) of
           Inl e \<Rightarrow> ([], jsonError ''Invalid JSON body'' 400)
         | Inr originalBody \<Rightarrow>
             (case filterParams SUPPORTED_IMAGE_PARAMS_xai originalBody [] of
                Inl e \<Rightarrow> ([], Inl e)
              | Inr filteredBody \<Rightarrow>
                  (let xaiRequestHeaders = new_Headers
                         [(''Content-Type'', ''application/json''),
                          (''Authorization'',
                           or_empty (headers_get (request.headers request) ''Authorization''))]
                   in case new_Request env
                             \<lparr>method = ''POST'', url = targetUrl,
                              headers = xaiRequestHeaders,
                              body = JSON_stringify (JObj filteredBody)\<rparr> of
                        Inl e \<Rightarrow> ([], Inl e)
                      | Inr xaiRequest \<Rightarrow>
                          ([xaiRequest],
                           case relayImageResponse env xaiRequest of
                             Inl error \<Rightarrow>
                               jsonError (''Error fetching from xAI API: '' @ message error) 502
                           | Inr r \<Rightarrow> Inr r)))))"

text \<open>
  The body of the \<^verbatim>\<open>try\<close> block of \<^verbatim>\<open>handleRequest\<close>: the 404 of a path outside
  \<^verbatim>\<open>/v1/\<close>, the image-generation route, and the generic forwarding of every other
  request.
\<close>

definition handleRequest_try_xai :: "env \<Rightarrow> request \<Rightarrow> outcome" where
  "handleRequest_try_xai env request =
     (let u = url request in
      if \<not> startsWith (pathname u) ''/v1/'' then
        ([], errorResponse ''text/plain'' (Text ''Not Found'') 404)
      else
        (let targetUrl = buildTargetUrl XAI_API_HOST u in
         if pathname u = IMAGE_GENERATION_PATH \<and> method request = ''POST'' then
           handleImageGenerationRequest_xai env request targetUrl
         else
           (let xaiRequestHeaders = new_Headers (request.headers request);
                xaiRequestHeaders = headers_set xaiRequestHeaders ''Host'' XAI_API_HOST;
                xaiRequestHeaders = headers_delete xaiRequestHeaders ''cf-connecting-ip'';
                xaiRequestHeaders = headers_delete xaiRequestHeaders ''cf-ipcountry'';
                xaiRequestHeaders = headers_delete xaiRequestHeaders ''cf-ray'';
                xaiRequestHeaders = headers_delete xaiRequestHeaders ''cf-visitor'';
                b = (if method request \<noteq> ''GET'' \<and> method request \<noteq> ''HEAD''
                     then request.body request else NoBody)
            in case new_Request env
                      \<lparr>method = method request, url = targetUrl,
                       headers = xaiRequestHeaders, body = b\<rparr> of
                 Inl e \<Rightarrow> ([], Inl e)
               | Inr xaiRequest \<Rightarrow>
                   ([xaiRequest],
                    case fetch env xaiRequest of
                      Inl e \<Rightarrow> Inl e
                    | Inr xaiResponse \<Rightarrow>
                        (let responseHeaders = new_Headers (response.headers xaiResponse);
                             responseHeaders = addCorsHeaders responseHeaders
                         in new_Response (response.body xaiResponse) (status xaiResponse)
                              (statusText xaiResponse) responseHeaders)))))"

definition handleRequest_xai :: "env \<Rightarrow> request \<Rightarrow> outcome" where
  "handleRequest_xai env request =
     (if method request = ''OPTIONS'' then ([], handleCorsPreflight)
      else
        (case handleRequest_try_xai env request of
           (calls, Inl error) \<Rightarrow>
             (calls, jsonError (''Internal Server Error: '' @ message error) 500)
         | (calls, Inr r) \<Rightarrow> (calls, Inr r)))"

section \<open>Example requests and runtimes\<close>

text \<open>
  Concrete inputs on which the theorems below are instantiated. \<open>runtime text v answer\<close>
  parses the body \<open>text\<close> to the value \<open>v\<close> and rejects every other body, answers every
  outbound request with \<open>answer\<close>, and lets the \<^verbatim>\<open>Request\<close> constructor accept its arguments.
\<close>

definition runtime :: "string \<Rightarrow> jsval \<Rightarrow> exn + response \<Rightarrow> env" where
  "runtime text v answer =
     \<lparr>json = (\<lambda>b. if b = Stream text then Inr v
                  else Inl (Exn ''SyntaxError'' ''Unexpected token'')),
      fetch = (\<lambda>q. answer),
      request_check = (\<lambda>q. None)\<rparr>"

text \<open>\<^verbatim>\<open>POST /v1/images/generations?a=1&a=2\<close> with a JSON content type and the given body.\<close>

definition image_request :: "string \<Rightarrow> request" where
  "image_request text =
     \<lparr>method = ''POST'',
      url = \<lparr>protocol = ''http:'', host = ''localhost:8000'',
             pathname = ''/v1/images/generations'',
             searchParams = [(''a'', ''1''), (''a'', ''2'')]\<rparr>,
      headers = [(''content-type'', ''application/json; charset=utf-8''),
                 (''authorization'', ''Bearer key'')],
      body = Stream text\<rparr>"

text \<open>An upstream answer: 200 with a JSON payload.\<close>

definition upstream_ok :: response where
  "upstream_ok =
     \<lparr>status = 200, statusText = ''OK'',
      headers = [(''content-type'', ''application/json''), (''x-request-id'', ''42'')],
      body = Stream ''payload''\<rparr>"

text \<open>An upstream failure: the connection is reset.\<close>

definition connection_reset :: exn where
  "connection_reset = Exn ''TypeError'' ''connection reset by peer''"

text \<open>\<^verbatim>\<open>OPTIONS /anything\<close>.\<close>

definition options_request :: request where
  "options_request =
     \<lparr>method = ''OPTIONS'',
      url = \<lparr>protocol = ''http:'', host = ''localhost:8000'', pathname = ''/anything'',
             searchParams = []\<rparr>,
      headers = [(''origin'', ''https://app.example'')],
      body = NoBody\<rparr>"

text \<open>The bodies of the examples, as JSON text and as the value the text parses to.\<close>

definition text_cat :: string where
  \<open>text_cat = ''{"prompt":"cat","unsupported_field":"x"}''\<close>

definition value_cat :: jsval where
  "value_cat = JObj [(''prompt'', JStr ''cat''), (''unsupported_field'', JStr ''x'')]"

definition text_zero :: string where
  \<open>text_zero = ''{"prompt":"cat","width":0,"sample_strength":0}''\<close>

definition value_zero :: jsval where
  "value_zero =
     JObj [(''prompt'', JStr ''cat''), (''width'', JNum (Finite 0)),
           (''sample_strength'', JNum (Finite 0))]"

definition text_falsy :: string where
  \<open>text_falsy = ''{"prompt":"cat","model":"","height":0}''\<close>

definition value_falsy :: jsval where
  "value_falsy =
     JObj [(''prompt'', JStr ''cat''), (''model'', JStr []), (''height'', JNum (Finite 0))]"

definition text_all_falsy :: string where
  \<open>text_all_falsy =
     ''{"prompt":"cat","model":"","negativePrompt":"","width":0,"height":0,"sample_strength":0}''\<close>

definition value_all_falsy :: jsval where
  "value_all_falsy =
     JObj [(''prompt'', JStr ''cat''), (''model'', JStr []), (''negativePrompt'', JStr []),
           (''width'', JNum (Finite 0)), (''height'', JNum (Finite 0)),
           (''sample_strength'', JNum (Finite 0))]"

definition text_null :: string where
  "text_null = ''null''"

definition text_empty :: string where
  "text_empty = ''{}''"

text \<open>
  \<^verbatim>\<open>POST /v1/chat/completions\<close> as it arrives behind a CDN, and \<^verbatim>\<open>GET /v1/models\<close>.
\<close>

definition chat_request :: request where
  "chat_request =
     \<lparr>method = ''POST'',
      url = \<lparr>protocol = ''http:'', host = ''localhost:8000'',
             pathname = ''/v1/chat/completions'', searchParams = []\<rparr>,
      headers = [(''host'', ''proxy.example''), (''authorization'', ''Bearer key''),
                 (''CF-Connecting-IP'', ''203.0.113.7''), (''cf-ipcountry'', ''NL''),
                 (''cf-ray'', ''8f1''), (''cf-visitor'', ''https''),
                 (''accept'', ''application/json'')],
      body = Stream ''chat''\<rparr>"

definition models_request :: request where
  "models_request =
     \<lparr>method = ''GET'',
      url = \<lparr>protocol = ''http:'', host = ''localhost:8000'',
             pathname = ''/v1/models'', searchParams = [(''limit'', ''5'')]\<rparr>,
      headers = [(''host'', ''proxy.example''), (''authorization'', ''Bearer key'')],
      body = Stream ''ignored''\<rparr>"

text \<open>
  A runtime whose \<^verbatim>\<open>Request\<close> constructor refuses the forbidden methods CONNECT, TRACE and
  TRACK, as Deno's does, and \<^verbatim>\<open>TRACE /v1/models\<close> with a body.
\<close>

definition strict_runtime :: "exn + response \<Rightarrow> env" where
  "strict_runtime answer =
     \<lparr>json = (\<lambda>b. Inl (Exn ''SyntaxError'' ''Unexpected end of JSON input'')),
      fetch = (\<lambda>q. answer),
      request_check =
        (\<lambda>q. if lowercase (method q) \<in> set [''connect'', ''trace'', ''track'']
             then Some (Exn ''TypeError'' ''Method is forbidden.'') else None)\<rparr>"

definition trace_request :: request where
  "trace_request =
     \<lparr>method = ''TRACE'',
      url = \<lparr>protocol = ''http:'', host = ''localhost:8000'',
             pathname = ''/v1/models'', searchParams = []\<rparr>,
      headers = [(''host'', ''proxy.example'')],
      body = Stream ''probe''\<rparr>"


section \<open>The loop body and the defaulting statements as functions\<close>

text \<open>
  One round of the filtering loop on a parsed object, and the two forms of defaulting
  statement (\<^verbatim>\<open>if (!fb.k) fb.k = d\<close> and \<^verbatim>\<open>if (fb.k === undefined) fb.k = d\<close>); the
  lemmas below show that \<open>filterParams\<close> and \<open>applyDefaults\<close> are compositions of them.
\<close>

definition copyParam :: "object \<Rightarrow> string \<Rightarrow> object \<Rightarrow> object" where
  "copyParam kvs param filteredBody =
     (if get_prop kvs param \<noteq> JUndefined then set_prop filteredBody param (get_prop kvs param)
      else filteredBody)"

definition default_if_falsy :: "string \<Rightarrow> jsval \<Rightarrow> object \<Rightarrow> object" where
  "default_if_falsy k d fb = (if \<not> truthy (get_prop fb k) then set_prop fb k d else fb)"

definition default_if_undefined :: "string \<Rightarrow> jsval \<Rightarrow> object \<Rightarrow> object" where
  "default_if_undefined k d fb = (if get_prop fb k = JUndefined then set_prop fb k d else fb)"

section \<open>Header operations\<close>

lemma same_name_refl [simp]: "same_name a a"
  by (simp add: same_name_def)






lemma new_Headers_id: "new_Headers hs = hs"
proof -
  have "foldl (\<lambda>hs h. headers_append hs (fst h) (snd h)) acc hs = acc @ hs" for acc
    by (induction hs arbitrary: acc) (simp_all add: headers_append_def)
  then show ?thesis by (simp add: new_Headers_def)
qed

lemma addCorsHeaders_eq: "addCorsHeaders hs = headers_set hs ''Access-Control-Allow-Origin'' ''*''"
  by (simp add: addCorsHeaders_def SUCCESS_CORS_HEADERS_def)

lemma name_eval:
  "same_name ''Content-Type'' ''Access-Control-Allow-Origin'' = False"
  by (simp add: same_name_def lowercase_def lower_char_def)


lemma new_Response_ok:
  "200 \<le> st \<Longrightarrow> st \<le> 599 \<Longrightarrow> b = NoBody \<or> st \<notin> set [101, 103, 204, 205, 304] \<Longrightarrow>
   new_Response b st stt hs = Inr \<lparr>status = st, statusText = stt, headers = hs, body = b\<rparr>"
  by (auto simp: new_Response_def)

lemma errorResponse_eq:
  "200 \<le> st \<Longrightarrow> st \<le> 599 \<Longrightarrow> st \<notin> set [101, 103, 204, 205, 304] \<Longrightarrow>
   errorResponse ''application/json'' b st =
     Inr \<lparr>status = st, statusText = [],
          headers = [(''Content-Type'', ''application/json''), (''Access-Control-Allow-Origin'', ''*'')],
          body = b\<rparr>"
  by (simp add: errorResponse_def new_Response_ok new_Headers_id addCorsHeaders_eq
      headers_set_def headers_delete_def headers_append_def name_eval)

lemma jsonError_eq:
  "200 \<le> st \<Longrightarrow> st \<le> 599 \<Longrightarrow> st \<notin> set [101, 103, 204, 205, 304] \<Longrightarrow>
   jsonError msg st =
     Inr \<lparr>status = st, statusText = [],
          headers = [(''Content-Type'', ''application/json''), (''Access-Control-Allow-Origin'', ''*'')],
          body = JSON_stringify (JObj [(''error'', JStr msg)])\<rparr>"
  by (simp add: jsonError_def errorResponse_eq)

lemma notFound_eq:
  "errorResponse ''text/plain'' (Text ''Not Found'') 404 =
     Inr \<lparr>status = 404, statusText = [],
          headers = [(''Content-Type'', ''text/plain''), (''Access-Control-Allow-Origin'', ''*'')],
          body = Text ''Not Found''\<rparr>"
  by (simp add: errorResponse_def new_Response_ok new_Headers_id addCorsHeaders_eq
      headers_set_def headers_delete_def headers_append_def name_eval)

lemma handleCorsPreflight_eq:
  "handleCorsPreflight =
     Inr \<lparr>status = 204, statusText = [],
          headers =
            [(''Access-Control-Allow-Origin'', ''*''),
             (''Access-Control-Allow-Methods'', ''GET, POST, PUT, DELETE, OPTIONS''),
             (''Access-Control-Allow-Headers'', ''Content-Type, Authorization, X-Requested-With''),
             (''Access-Control-Max-Age'', ''86400'')],
          body = NoBody\<rparr>"
  by (simp add: handleCorsPreflight_def new_Response_ok new_Headers_id PREFLIGHT_CORS_HEADERS_def)














section \<open>Which requests are sent upstream\<close>

lemma buildTargetUrl_eq:
  "buildTargetUrl h u =
     \<lparr>protocol = ''https:'', host = h, pathname = pathname u, searchParams = searchParams u\<rparr>"
proof -
  have "foldl (\<lambda>targetUrl kv. searchParams_append targetUrl (fst kv) (snd kv)) t ps
        = t\<lparr>searchParams := searchParams t @ ps\<rparr>" for t :: url and ps
    by (induction ps arbitrary: t) (simp_all add: searchParams_append_def)
  then show ?thesis by (simp add: buildTargetUrl_def new_URL_https_def)
qed

lemma image_jimeng_dispatch:
  assumes "r \<in> set (fst (handleImageGenerationRequest_jimeng env request t))"
  shows "\<exists>ob p fb.
      str_includes (or_empty (headers_get (request.headers request) ''Content-Type'')) ''application/json''
    \<and> json env (request.body request) = Inr ob
    \<and> read_prop ob ''prompt'' = Inr p \<and> truthy p
    \<and> filterParams SUPPORTED_IMAGE_PARAMS_jimeng ob [] = Inr fb
    \<and> r = \<lparr>method = ''POST'', url = t,
            headers = [(''Content-Type'', ''application/json''),
                       (''Authorization'', or_empty (headers_get (request.headers request) ''Authorization''))],
            body = JSON_stringify (JObj (applyDefaults fb))\<rparr>
    \<and> handleImageGenerationRequest_jimeng env request t =
        ([r], case relayImageResponse env r of
                Inl error \<Rightarrow> jsonError (''Error fetching from API: '' @ message error) 502
              | Inr x \<Rightarrow> Inr x)"
  using assms
  by (auto simp: handleImageGenerationRequest_jimeng_def Let_def new_Request_def new_Headers_id
      split: sum.splits if_splits option.splits)

lemma image_xai_dispatch:
  assumes "r \<in> set (fst (handleImageGenerationRequest_xai env request t))"
  shows "\<exists>ob fb.
      str_includes (or_empty (headers_get (request.headers request) ''Content-Type'')) ''application/json''
    \<and> json env (request.body request) = Inr ob
    \<and> filterParams SUPPORTED_IMAGE_PARAMS_xai ob [] = Inr fb
    \<and> r = \<lparr>method = ''POST'', url = t,
            headers = [(''Content-Type'', ''application/json''),
                       (''Authorization'', or_empty (headers_get (request.headers request) ''Authorization''))],
            body = JSON_stringify (JObj fb)\<rparr>
    \<and> handleImageGenerationRequest_xai env request t =
        ([r], case relayImageResponse env r of
                Inl error \<Rightarrow> jsonError (''Error fetching from xAI API: '' @ message error) 502
              | Inr x \<Rightarrow> Inr x)"
  using assms
  by (auto simp: handleImageGenerationRequest_xai_def Let_def new_Request_def new_Headers_id
      split: sum.splits if_splits option.splits)

lemma jimeng_dispatch:
  assumes "r \<in> set (fst (handleRequest_jimeng env request))"
  shows "method request = ''POST'' \<and> pathname (url request) = IMAGE_GENERATION_PATH
    \<and> r \<in> set (fst (handleImageGenerationRequest_jimeng env request
                        (buildTargetUrl TARGET_API_HOST (url request))))
    \<and> fst (handleRequest_jimeng env request) =
        fst (handleImageGenerationRequest_jimeng env request
                        (buildTargetUrl TARGET_API_HOST (url request)))"
  using assms
  by (auto simp: handleRequest_jimeng_def handleRequest_try_jimeng_def Let_def handleCorsPreflight_eq
      split: if_splits prod.splits sum.splits)

lemma xai_generic_dispatch:
  assumes "r \<in> set (fst (handleRequest_xai env request))"
    and "\<not> (pathname (url request) = IMAGE_GENERATION_PATH \<and> method request = ''POST'')"
  shows "r = \<lparr>method = method request, url = buildTargetUrl XAI_API_HOST (url request),
            headers =
              headers_delete (headers_delete (headers_delete (headers_delete
                (headers_set (request.headers request) ''Host'' XAI_API_HOST)
                ''cf-connecting-ip'') ''cf-ipcountry'') ''cf-ray'') ''cf-visitor'',
            body = (if method request \<noteq> ''GET'' \<and> method request \<noteq> ''HEAD''
                    then request.body request else NoBody)\<rparr>"
  using assms
  by (auto simp: handleRequest_xai_def handleRequest_try_xai_def Let_def handleCorsPreflight_eq
      new_Request_def new_Headers_id
      split: if_splits prod.splits sum.splits option.splits)

lemma xai_image_dispatch:
  assumes "r \<in> set (fst (handleRequest_xai env request))"
    and "pathname (url request) = IMAGE_GENERATION_PATH" "method request = ''POST''"
  shows "r \<in> set (fst (handleImageGenerationRequest_xai env request
                        (buildTargetUrl XAI_API_HOST (url request))))
     \<and> handleRequest_xai env request = (case handleImageGenerationRequest_xai env request
                        (buildTargetUrl XAI_API_HOST (url request)) of
           (calls, Inl error) \<Rightarrow>
             (calls, jsonError (''Internal Server Error: '' @ message error) 500)
         | (calls, Inr r) \<Rightarrow> (calls, Inr r))"
  using assms
  by (auto simp: handleRequest_xai_def handleRequest_try_xai_def Let_def handleCorsPreflight_eq
      split: if_splits prod.splits sum.splits)


lemma jimeng_sent:
  assumes "r \<in> set (fst (handleRequest_jimeng env request))"
  obtains ob p fb where
    "method request = ''POST''" "pathname (url request) = IMAGE_GENERATION_PATH"
    "str_includes (or_empty (headers_get (request.headers request) ''Content-Type''))
       ''application/json''"
    "json env (request.body request) = Inr ob"
    "read_prop ob ''prompt'' = Inr p" "truthy p"
    "filterParams SUPPORTED_IMAGE_PARAMS_jimeng ob [] = Inr fb"
    "r = \<lparr>method = ''POST'', url = buildTargetUrl TARGET_API_HOST (url request),
          headers = [(''Content-Type'', ''application/json''),
                     (''Authorization'',
                      or_empty (headers_get (request.headers request) ''Authorization''))],
          body = JSON_stringify (JObj (applyDefaults fb))\<rparr>"
    "handleRequest_jimeng env request =
       ([r], case relayImageResponse env r of
               Inl error \<Rightarrow> jsonError (''Error fetching from API: '' @ message error) 502
             | Inr x \<Rightarrow> Inr x)"
proof -
  from jimeng_dispatch [OF assms]
  have m: "method request = ''POST''" and p: "pathname (url request) = IMAGE_GENERATION_PATH"
    and i: "r \<in> set (fst (handleImageGenerationRequest_jimeng env request
                        (buildTargetUrl TARGET_API_HOST (url request))))"
    by simp_all
  from image_jimeng_dispatch [OF i] obtain ob p' fb where
    d: "str_includes (or_empty (headers_get (request.headers request) ''Content-Type''))
         ''application/json''"
      "json env (request.body request) = Inr ob"
      "read_prop ob ''prompt'' = Inr p'" "truthy p'"
      "filterParams SUPPORTED_IMAGE_PARAMS_jimeng ob [] = Inr fb"
      "r = \<lparr>method = ''POST'', url = buildTargetUrl TARGET_API_HOST (url request),
          headers = [(''Content-Type'', ''application/json''),
                     (''Authorization'',
                      or_empty (headers_get (request.headers request) ''Authorization''))],
          body = JSON_stringify (JObj (applyDefaults fb))\<rparr>"
      and h: "handleImageGenerationRequest_jimeng env request
                (buildTargetUrl TARGET_API_HOST (url request)) =
        ([r], case relayImageResponse env r of
                Inl error \<Rightarrow> jsonError (''Error fetching from API: '' @ message error) 502
              | Inr x \<Rightarrow> Inr x)"
    by blast
  have "handleRequest_jimeng env request =
       ([r], case relayImageResponse env r of
               Inl error \<Rightarrow> jsonError (''Error fetching from API: '' @ message error) 502
             | Inr x \<Rightarrow> Inr x)"
    using m p h
    by (simp add: handleRequest_jimeng_def handleRequest_try_jimeng_def jsonError_eq
        split: sum.splits)
  with m p d show thesis by (rule that)
qed

lemma xai_image_sent:
  assumes "r \<in> set (fst (handleRequest_xai env request))"
    and p: "pathname (url request) = IMAGE_GENERATION_PATH" and m: "method request = ''POST''"
  obtains ob fb where
    "str_includes (or_empty (headers_get (request.headers request) ''Content-Type''))
       ''application/json''"
    "json env (request.body request) = Inr ob"
    "filterParams SUPPORTED_IMAGE_PARAMS_xai ob [] = Inr fb"
    "r = \<lparr>method = ''POST'', url = buildTargetUrl XAI_API_HOST (url request),
          headers = [(''Content-Type'', ''application/json''),
                     (''Authorization'',
                      or_empty (headers_get (request.headers request) ''Authorization''))],
          body = JSON_stringify (JObj fb)\<rparr>"
    "handleRequest_xai env request =
       ([r], case relayImageResponse env r of
               Inl error \<Rightarrow> jsonError (''Error fetching from xAI API: '' @ message error) 502
             | Inr x \<Rightarrow> Inr x)"
proof -
  from xai_image_dispatch [OF assms]
  have i: "r \<in> set (fst (handleImageGenerationRequest_xai env request
                        (buildTargetUrl XAI_API_HOST (url request))))"
    and w: "handleRequest_xai env request =
        (case handleImageGenerationRequest_xai env request
                (buildTargetUrl XAI_API_HOST (url request)) of
           (calls, Inl error) \<Rightarrow>
             (calls, jsonError (''Internal Server Error: '' @ message error) 500)
         | (calls, Inr r) \<Rightarrow> (calls, Inr r))"
    by simp_all
  from image_xai_dispatch [OF i] obtain ob fb where
    d: "str_includes (or_empty (headers_get (request.headers request) ''Content-Type''))
         ''application/json''"
      "json env (request.body request) = Inr ob"
      "filterParams SUPPORTED_IMAGE_PARAMS_xai ob [] = Inr fb"
      "r = \<lparr>method = ''POST'', url = buildTargetUrl XAI_API_HOST (url request),
          headers = [(''Content-Type'', ''application/json''),
                     (''Authorization'',
                      or_empty (headers_get (request.headers request) ''Authorization''))],
          body = JSON_stringify (JObj fb)\<rparr>"
      and h: "handleImageGenerationRequest_xai env request
                (buildTargetUrl XAI_API_HOST (url request)) =
        ([r], case relayImageResponse env r of
                Inl error \<Rightarrow> jsonError (''Error fetching from xAI API: '' @ message error) 502
              | Inr x \<Rightarrow> Inr x)"
    by blast
  have "handleRequest_xai env request =
       ([r], case relayImageResponse env r of
               Inl error \<Rightarrow> jsonError (''Error fetching from xAI API: '' @ message error) 502
             | Inr x \<Rightarrow> Inr x)"
    using w h by (simp add: jsonError_eq split: sum.splits)
  with d show thesis by (rule that)
qed

section \<open>Filtering and defaulting\<close>

text \<open>On an object the filtering loop never raises: it is a fold over the allow-list.\<close>

lemma get_prop_set_prop:
  "get_prop (set_prop ob k v) k' = (if k' = k then v else get_prop ob k')"
  by (simp add: get_prop_def set_prop_def update_conv')

lemma keys_set_prop: "fst ` set (set_prop ob k v) = insert k (fst ` set ob)"
  by (simp add: set_prop_def dom_update)

lemma distinct_set_prop: "distinct (map fst ob) \<Longrightarrow> distinct (map fst (set_prop ob k v))"
  by (simp add: set_prop_def distinct_update)

lemma get_prop_defined: "get_prop ob k \<noteq> JUndefined \<Longrightarrow> k \<in> fst ` set ob"
  by (auto simp: get_prop_def split: option.splits dest!: map_of_SomeD intro: rev_image_eqI)

lemma truthy_defined: "truthy v \<Longrightarrow> v \<noteq> JUndefined"
  by auto

lemma read_prop_object: "read_prop (JObj kvs) k = Inr (get_prop kvs k)"
  by (simp add: get_prop_def)

lemma filterParams_object:
  "filterParams ps (JObj kvs) acc = Inr (fold (copyParam kvs) ps acc)"
  by (induction ps arbitrary: acc) (simp_all add: get_prop_def copyParam_def)

lemma get_prop_fold_copy:
  "get_prop (fold (copyParam kvs) ps acc) k =
     (if k \<in> set ps \<and> get_prop kvs k \<noteq> JUndefined then get_prop kvs k else get_prop acc k)"
  by (induction ps arbitrary: acc) (auto simp: copyParam_def get_prop_set_prop)

lemma keys_fold_copy:
  "fst ` set (fold (copyParam kvs) ps acc) =
     fst ` set acc \<union> {k \<in> set ps. get_prop kvs k \<noteq> JUndefined}"
  by (induction ps arbitrary: acc) (auto simp: copyParam_def keys_set_prop)

lemma distinct_fold_copy:
  "distinct (map fst acc) \<Longrightarrow> distinct (map fst (fold (copyParam kvs) ps acc))"
  by (induction ps arbitrary: acc) (auto simp: copyParam_def distinct_set_prop)

lemma applyDefaults_steps:
  "applyDefaults fb =
     default_if_undefined ''sample_strength'' (JNum (Finite (1 / 2)))
       (default_if_falsy ''height'' (JNum (Finite 1024))
         (default_if_falsy ''width'' (JNum (Finite 1024))
           (default_if_falsy ''negativePrompt'' (JStr [])
             (default_if_falsy ''model'' (JStr ''jimeng-3.0'') fb))))"
  unfolding applyDefaults_def default_if_falsy_def default_if_undefined_def Let_def ..

lemma get_prop_default_if_falsy:
  "get_prop (default_if_falsy k d fb) k' =
     (if k' = k then (if truthy (get_prop fb k) then get_prop fb k else d) else get_prop fb k')"
  by (simp add: default_if_falsy_def get_prop_set_prop)

lemma get_prop_default_if_undefined:
  "get_prop (default_if_undefined k d fb) k' =
     (if k' = k then (if get_prop fb k = JUndefined then d else get_prop fb k) else get_prop fb k')"
  by (simp add: default_if_undefined_def get_prop_set_prop)

lemma keys_default_if_falsy:
  "fst ` set (default_if_falsy k d fb) = insert k (fst ` set fb)"
  using get_prop_defined [of fb k] truthy_defined [of "get_prop fb k"]
  by (auto simp: default_if_falsy_def keys_set_prop)

lemma keys_default_if_undefined:
  "fst ` set (default_if_undefined k d fb) = insert k (fst ` set fb)"
  using get_prop_defined [of fb k]
  by (auto simp: default_if_undefined_def keys_set_prop)

lemma distinct_default_if_falsy:
  "distinct (map fst fb) \<Longrightarrow> distinct (map fst (default_if_falsy k d fb))"
  by (simp add: default_if_falsy_def distinct_set_prop)

lemma distinct_default_if_undefined:
  "distinct (map fst fb) \<Longrightarrow> distinct (map fst (default_if_undefined k d fb))"
  by (simp add: default_if_undefined_def distinct_set_prop)

lemma distinct_applyDefaults:
  "distinct (map fst fb) \<Longrightarrow> distinct (map fst (applyDefaults fb))"
  by (simp add: applyDefaults_steps distinct_default_if_falsy distinct_default_if_undefined)

lemma insert5: "insert a (insert b (insert c (insert d (insert e S)))) = S \<union> {e, d, c, b, a}"
  by blast

lemma keys_applyDefaults:
  "fst ` set (applyDefaults fb) =
     fst ` set fb \<union> {''model'', ''negativePrompt'', ''width'', ''height'', ''sample_strength''}"
  by (simp only: applyDefaults_steps keys_default_if_falsy keys_default_if_undefined)
    (rule insert5)

lemma get_prop_applyDefaults_model:
  "get_prop (applyDefaults fb) ''model'' =
     (if truthy (get_prop fb ''model'') then get_prop fb ''model'' else JStr ''jimeng-3.0'')"
  by (simp add: applyDefaults_steps get_prop_default_if_falsy get_prop_default_if_undefined)

lemma get_prop_applyDefaults_negativePrompt:
  "get_prop (applyDefaults fb) ''negativePrompt'' =
     (if truthy (get_prop fb ''negativePrompt'') then get_prop fb ''negativePrompt'' else JStr [])"
  by (simp add: applyDefaults_steps get_prop_default_if_falsy get_prop_default_if_undefined)

lemma get_prop_applyDefaults_width:
  "get_prop (applyDefaults fb) ''width'' =
     (if truthy (get_prop fb ''width'') then get_prop fb ''width'' else JNum (Finite 1024))"
  by (simp add: applyDefaults_steps get_prop_default_if_falsy get_prop_default_if_undefined)

lemma get_prop_applyDefaults_height:
  "get_prop (applyDefaults fb) ''height'' =
     (if truthy (get_prop fb ''height'') then get_prop fb ''height'' else JNum (Finite 1024))"
  by (simp add: applyDefaults_steps get_prop_default_if_falsy get_prop_default_if_undefined)

lemma get_prop_applyDefaults_sample_strength:
  "get_prop (applyDefaults fb) ''sample_strength'' =
     (if get_prop fb ''sample_strength'' = JUndefined then JNum (Finite (1 / 2))
      else get_prop fb ''sample_strength'')"
  by (simp add: applyDefaults_steps get_prop_default_if_falsy get_prop_default_if_undefined)

lemma get_prop_applyDefaults_other:
  "k \<notin> {''model'', ''negativePrompt'', ''width'', ''height'', ''sample_strength''} \<Longrightarrow>
   get_prop (applyDefaults fb) k = get_prop fb k"
  by (simp add: applyDefaults_steps get_prop_default_if_falsy get_prop_default_if_undefined)

section \<open>The forwarded body\<close>

lemma truthy_prompt_object:
  "read_prop ob ''prompt'' = Inr p \<Longrightarrow> truthy p \<Longrightarrow> \<exists>kvs. ob = JObj kvs"
  by (cases ob) auto

lemma jimeng_forwarded_body:
  assumes "r \<in> set (fst (handleRequest_jimeng env request))"
  shows "\<exists>kvs. json env (request.body request) = Inr (JObj kvs)
     \<and> truthy (get_prop kvs ''prompt'')
     \<and> request.body r = JSON_stringify (JObj (applyDefaults
          (fold (copyParam kvs) SUPPORTED_IMAGE_PARAMS_jimeng [])))"
  using assms
proof (rule jimeng_sent)
  fix ob p fb
  assume j: "json env (request.body request) = Inr ob"
    and p: "read_prop ob ''prompt'' = Inr p" "truthy p"
    and f: "filterParams SUPPORTED_IMAGE_PARAMS_jimeng ob [] = Inr fb"
    and r: "r = \<lparr>method = ''POST'', url = buildTargetUrl TARGET_API_HOST (url request),
          headers = [(''Content-Type'', ''application/json''),
                     (''Authorization'',
                      or_empty (headers_get (request.headers request) ''Authorization''))],
          body = JSON_stringify (JObj (applyDefaults fb))\<rparr>"
  from p obtain kvs where o: "ob = JObj kvs" using truthy_prompt_object by blast
  from p o have "truthy (get_prop kvs ''prompt'')" by (auto simp: get_prop_def)
  moreover from f o have "fb = fold (copyParam kvs) SUPPORTED_IMAGE_PARAMS_jimeng []"
    by (simp add: filterParams_object)
  moreover have "request.body r = JSON_stringify (JObj (applyDefaults fb))"
    by (subst r) simp
  ultimately show ?thesis using j o by simp
qed

lemma xai_forwarded_body:
  assumes "r \<in> set (fst (handleRequest_xai env request))"
    and "pathname (url request) = IMAGE_GENERATION_PATH" and "method request = ''POST''"
    and j: "json env (request.body request) = Inr (JObj kvs)"
  shows "request.body r = JSON_stringify (JObj (fold (copyParam kvs) SUPPORTED_IMAGE_PARAMS_xai []))"
  using assms(1-3)
proof (rule xai_image_sent)
  fix ob fb
  assume j': "json env (request.body request) = Inr ob"
    and f: "filterParams SUPPORTED_IMAGE_PARAMS_xai ob [] = Inr fb"
    and r: "r = \<lparr>method = ''POST'', url = buildTargetUrl XAI_API_HOST (url request),
          headers = [(''Content-Type'', ''application/json''),
                     (''Authorization'',
                      or_empty (headers_get (request.headers request) ''Authorization''))],
          body = JSON_stringify (JObj fb)\<rparr>"
  from j j' have o: "ob = JObj kvs" by simp
  from f o have "fb = fold (copyParam kvs) SUPPORTED_IMAGE_PARAMS_xai []"
    by (simp add: filterParams_object)
  moreover have "request.body r = JSON_stringify (JObj fb)"
    by (subst r) simp
  ultimately show ?thesis by simp
qed

lemma six_keys:
  "P b \<Longrightarrow> ({} \<union> {k \<in> set [a, b, c, d, e, f]. P k}) \<union> {a, c, d, e, f} = set [a, b, c, d, e, f]"
  by auto

lemma jimeng_keys:
  assumes "truthy (get_prop kvs ''prompt'')"
  shows "fst ` set (applyDefaults (fold (copyParam kvs) SUPPORTED_IMAGE_PARAMS_jimeng [])) =
     set SUPPORTED_IMAGE_PARAMS_jimeng"
proof -
  from assms have p: "get_prop kvs ''prompt'' \<noteq> JUndefined" by (rule truthy_defined)
  have "fst ` set (applyDefaults (fold (copyParam kvs) SUPPORTED_IMAGE_PARAMS_jimeng [])) =
      ({} \<union> {k \<in> set [''model'', ''prompt'', ''negativePrompt'', ''width'', ''height'',
                        ''sample_strength'']. get_prop kvs k \<noteq> JUndefined})
      \<union> {''model'', ''negativePrompt'', ''width'', ''height'', ''sample_strength''}"
    by (simp only: keys_applyDefaults keys_fold_copy SUPPORTED_IMAGE_PARAMS_jimeng_def
        list.set(1) image_empty)
  also have "\<dots> = set [''model'', ''prompt'', ''negativePrompt'', ''width'', ''height'',
                        ''sample_strength'']"
    using p by (rule six_keys [where P = "\<lambda>k. get_prop kvs k \<noteq> JUndefined"])
  finally show ?thesis by (simp only: SUPPORTED_IMAGE_PARAMS_jimeng_def)
qed

lemma mem6:
  assumes "k \<in> set [a, b, c, d, e, f]"
  obtains "k = a" | "k = b" | "k = c" | "k = d" | "k = e" | "k = f"
  using assms by auto

lemma jimeng_values:
  assumes "k \<in> set SUPPORTED_IMAGE_PARAMS_jimeng" "get_prop kvs k \<noteq> JUndefined"
    "truthy (get_prop kvs k) \<or> k = ''sample_strength''"
  shows "get_prop (applyDefaults (fold (copyParam kvs) SUPPORTED_IMAGE_PARAMS_jimeng [])) k =
     get_prop kvs k"
proof -
  let ?fb = "fold (copyParam kvs) SUPPORTED_IMAGE_PARAMS_jimeng []"
  have f: "get_prop ?fb k = get_prop kvs k"
    using assms(1,2) by (simp add: get_prop_fold_copy)
  from assms(1) have "k \<in> set [''model'', ''prompt'', ''negativePrompt'', ''width'', ''height'',
                        ''sample_strength'']"
    by (simp only: SUPPORTED_IMAGE_PARAMS_jimeng_def)
  then show ?thesis
  proof (rule mem6)
    assume "k = ''model''"
    with f assms(3) show ?thesis by (simp add: get_prop_applyDefaults_model)
  next
    assume "k = ''prompt''"
    with f show ?thesis by (simp add: get_prop_applyDefaults_other)
  next
    assume "k = ''negativePrompt''"
    with f assms(3) show ?thesis by (simp add: get_prop_applyDefaults_negativePrompt)
  next
    assume "k = ''width''"
    with f assms(3) show ?thesis by (simp add: get_prop_applyDefaults_width)
  next
    assume "k = ''height''"
    with f assms(3) show ?thesis by (simp add: get_prop_applyDefaults_height)
  next
    assume "k = ''sample_strength''"
    with f assms(2) show ?thesis by (simp add: get_prop_applyDefaults_sample_strength)
  qed
qed

lemma get_prop_Nil: "get_prop [] k = JUndefined"
  by (simp add: get_prop_def)

lemma get_prop_filtered:
  "k \<in> set ps \<Longrightarrow> get_prop (fold (copyParam kvs) ps []) k = get_prop kvs k"
  by (simp add: get_prop_fold_copy get_prop_Nil)

lemma jimeng_supported:
  "''model'' \<in> set SUPPORTED_IMAGE_PARAMS_jimeng"
  "''prompt'' \<in> set SUPPORTED_IMAGE_PARAMS_jimeng"
  "''negativePrompt'' \<in> set SUPPORTED_IMAGE_PARAMS_jimeng"
  "''width'' \<in> set SUPPORTED_IMAGE_PARAMS_jimeng"
  "''height'' \<in> set SUPPORTED_IMAGE_PARAMS_jimeng"
  "''sample_strength'' \<in> set SUPPORTED_IMAGE_PARAMS_jimeng"
  by (simp_all add: SUPPORTED_IMAGE_PARAMS_jimeng_def)

section \<open>Evaluation on concrete inputs\<close>

lemmas handler_defs =
  handleRequest_jimeng_def handleRequest_try_jimeng_def handleImageGenerationRequest_jimeng_def
  handleRequest_xai_def handleRequest_try_xai_def handleImageGenerationRequest_xai_def
  relayImageResponse_def new_Request_def buildTargetUrl_eq new_Headers_id addCorsHeaders_eq
  SUPPORTED_IMAGE_PARAMS_jimeng_def SUPPORTED_IMAGE_PARAMS_xai_def IMAGE_GENERATION_PATH_def
  TARGET_API_HOST_def XAI_API_HOST_def startsWith_def or_empty_def Let_def
  headers_get_def headers_set_def headers_delete_def headers_append_def
  same_name_def lowercase_def lower_char_def
  filterParams_object copyParam_def get_prop_def set_prop_def
  jsonError_eq notFound_eq handleCorsPreflight_eq new_Response_def

lemmas example_defs =
  runtime_def image_request_def upstream_ok_def connection_reset_def options_request_def
  text_cat_def value_cat_def text_zero_def value_zero_def text_falsy_def value_falsy_def
  chat_request_def models_request_def text_null_def text_empty_def
  text_all_falsy_def value_all_falsy_def strict_runtime_def trace_request_def

lemma sent_jimeng_cat:
  "fst (handleRequest_jimeng (runtime text_cat value_cat answer) (image_request text_cat)) \<noteq> []"
  by (simp add: handler_defs example_defs split: sum.splits)

lemma sent_xai_cat:
  "fst (handleRequest_xai (runtime text_cat value_cat answer) (image_request text_cat)) \<noteq> []"
  by (simp add: handler_defs example_defs split: sum.splits)



lemma image_request_facts:
  "method (image_request t) = ''POST''"
  "pathname (url (image_request t)) = IMAGE_GENERATION_PATH"
  "str_includes (or_empty (headers_get (request.headers (image_request t)) ''Content-Type''))
     ''application/json''"
  "request.body (image_request t) = Stream t"
  by (simp_all add: image_request_def IMAGE_GENERATION_PATH_def or_empty_def headers_get_def
      same_name_def lowercase_def lower_char_def)

lemmas body_eval =
  handler_defs example_defs applyDefaults_steps default_if_falsy_def default_if_undefined_def

lemma sent_body_xai_cat:
  "map request.body (fst (handleRequest_xai (runtime text_cat value_cat answer)
      (image_request text_cat))) = [JSON_stringify (JObj [(''prompt'', JStr ''cat'')])]"
  by (simp add: body_eval split: sum.splits)

lemma sent_body_jimeng_cat:
  "map request.body (fst (handleRequest_jimeng (runtime text_cat value_cat answer)
      (image_request text_cat))) =
     [JSON_stringify
        (JObj [(''prompt'', JStr ''cat''), (''model'', JStr ''jimeng-3.0''),
               (''negativePrompt'', JStr []), (''width'', JNum (Finite 1024)),
               (''height'', JNum (Finite 1024)),
               (''sample_strength'', JNum (Finite (1 / 2)))])]"
  by (simp add: body_eval split: sum.splits)

lemma sent_body_jimeng_zero:
  "map request.body (fst (handleRequest_jimeng (runtime text_zero value_zero answer)
      (image_request text_zero))) =
     [JSON_stringify
        (JObj [(''prompt'', JStr ''cat''), (''width'', JNum (Finite 1024)),
               (''sample_strength'', JNum (Finite 0)),
               (''model'', JStr ''jimeng-3.0''), (''negativePrompt'', JStr []),
               (''height'', JNum (Finite 1024))])]"
  by (simp add: body_eval split: sum.splits)

lemma sent_body_jimeng_falsy:
  "map request.body (fst (handleRequest_jimeng (runtime text_falsy value_falsy answer)
      (image_request text_falsy))) =
     [JSON_stringify
        (JObj [(''model'', JStr ''jimeng-3.0''), (''prompt'', JStr ''cat''),
               (''height'', JNum (Finite 1024)), (''negativePrompt'', JStr []),
               (''width'', JNum (Finite 1024)),
               (''sample_strength'', JNum (Finite (1 / 2)))])]"
  by (simp add: body_eval split: sum.splits)

lemma sent_body_jimeng_all_falsy:
  "map request.body (fst (handleRequest_jimeng (runtime text_all_falsy value_all_falsy answer)
      (image_request text_all_falsy))) =
     [JSON_stringify
        (JObj [(''model'', JStr ''jimeng-3.0''), (''prompt'', JStr ''cat''),
               (''negativePrompt'', JStr []), (''width'', JNum (Finite 1024)),
               (''height'', JNum (Finite 1024)),
               (''sample_strength'', JNum (Finite 0))])]"
  by (simp add: body_eval split: sum.splits)

lemma hd_map_body: "map request.body xs = [b] \<Longrightarrow> hd xs \<in> set xs \<and> request.body (hd xs) = b"
  by (cases xs) auto

section \<open>Preflight\<close>



section \<open>Every response carries the CORS header\<close>




section \<open>The target URL\<close>

text \<open>
  Claim C6. Every request that either variant sends upstream (on the image path of the
  jimeng variant; on any \<^verbatim>\<open>/v1/\<close> path, image or generic, of the xAI variant) goes to the
  fixed upstream host over https, with the inbound path and with the inbound query
  parameters in their original order, duplicates kept: \<^verbatim>\<open>?a=1&a=2\<close> arrives as the two
  parameters \<open>a=1\<close>, \<open>a=2\<close>. Query parameters are the decoded key/value pairs of
  \<^verbatim>\<open>URL.searchParams\<close>.
\<close>

theorem C6_target_url:
  "(r \<in> set (fst (handleRequest_jimeng env request)) \<longrightarrow>
      url r = \<lparr>protocol = ''https:'', host = ''sejktjafstpl.us-east-1.clawcloudrun.com'',
               pathname = pathname (url request),
               searchParams = searchParams (url request)\<rparr>)
   \<and> (r \<in> set (fst (handleRequest_xai env request)) \<longrightarrow>
      url r = \<lparr>protocol = ''https:'', host = ''api.x.ai'',
               pathname = pathname (url request),
               searchParams = searchParams (url request)\<rparr>)"
proof (intro conjI impI)
  assume a: "r \<in> set (fst (handleRequest_jimeng env request))"
  then show "url r = \<lparr>protocol = ''https:'', host = ''sejktjafstpl.us-east-1.clawcloudrun.com'',
               pathname = pathname (url request),
               searchParams = searchParams (url request)\<rparr>"
    by (rule jimeng_sent) (simp add: buildTargetUrl_eq TARGET_API_HOST_def)
next
  assume a: "r \<in> set (fst (handleRequest_xai env request))"
  show "url r = \<lparr>protocol = ''https:'', host = ''api.x.ai'',
               pathname = pathname (url request),
               searchParams = searchParams (url request)\<rparr>"
  proof (cases "pathname (url request) = IMAGE_GENERATION_PATH \<and> method request = ''POST''")
    case True
    then have p: "pathname (url request) = IMAGE_GENERATION_PATH"
      and m: "method request = ''POST''" by simp_all
    from a p m show ?thesis
      by (rule xai_image_sent) (simp add: buildTargetUrl_eq XAI_API_HOST_def)
  next
    case False
    with xai_generic_dispatch [OF a] show ?thesis
      by (simp add: buildTargetUrl_eq XAI_API_HOST_def)
  qed
qed

theorem C6_target_url_witness:
  "hd (fst (handleRequest_jimeng (runtime text_cat value_cat (Inr upstream_ok))
             (image_request text_cat)))
     \<in> set (fst (handleRequest_jimeng (runtime text_cat value_cat (Inr upstream_ok))
             (image_request text_cat)))
   \<and> url (hd (fst (handleRequest_jimeng (runtime text_cat value_cat (Inr upstream_ok))
             (image_request text_cat)))) =
       \<lparr>protocol = ''https:'', host = ''sejktjafstpl.us-east-1.clawcloudrun.com'',
        pathname = ''/v1/images/generations'',
        searchParams = [(''a'', ''1''), (''a'', ''2'')]\<rparr>
   \<and> hd (fst (handleRequest_xai (runtime text_cat value_cat (Inr upstream_ok))
             (image_request text_cat)))
     \<in> set (fst (handleRequest_xai (runtime text_cat value_cat (Inr upstream_ok))
             (image_request text_cat)))
   \<and> url (hd (fst (handleRequest_xai (runtime text_cat value_cat (Inr upstream_ok))
             (image_request text_cat)))) =
       \<lparr>protocol = ''https:'', host = ''api.x.ai'',
        pathname = ''/v1/images/generations'',
        searchParams = [(''a'', ''1''), (''a'', ''2'')]\<rparr>"
proof -
  let ?E = "runtime text_cat value_cat (Inr upstream_ok)"
  let ?R = "image_request text_cat"
  have j: "hd (fst (handleRequest_jimeng ?E ?R)) \<in> set (fst (handleRequest_jimeng ?E ?R))"
    using sent_jimeng_cat by (rule hd_in_set)
  have x: "hd (fst (handleRequest_xai ?E ?R)) \<in> set (fst (handleRequest_xai ?E ?R))"
    using sent_xai_cat by (rule hd_in_set)
  have u: "pathname (url ?R) = ''/v1/images/generations''"
    "searchParams (url ?R) = [(''a'', ''1''), (''a'', ''2'')]"
    by (simp_all add: image_request_def)
  from j x u
    C6_target_url [of "hd (fst (handleRequest_jimeng ?E ?R))" ?E ?R]
    C6_target_url [of "hd (fst (handleRequest_xai ?E ?R))" ?E ?R]
  show ?thesis by simp
qed

section \<open>Upstream failure\<close>

text \<open>
  Claim C5. When an image-generation request has reached the dispatch step (which it
  does only after the content-type, JSON and, in the jimeng variant, required-field
  checks have passed), and \<^verbatim>\<open>fetch\<close> raises an exception \<open>e\<close> on the request sent, the
  response is 502 with the JSON body \<^verbatim>\<open>{"error": "Error fetching from API: <message of e>"}\<close>
  (\<^verbatim>\<open>"Error fetching from xAI API: ..."\<close> in the xAI variant).
\<close>

theorem C5_upstream_failure_502:
  "pathname (url request) = IMAGE_GENERATION_PATH \<Longrightarrow> method request = ''POST'' \<Longrightarrow>
   fetch env r = Inl e \<Longrightarrow>
     (r \<in> set (fst (handleRequest_jimeng env request)) \<longrightarrow>
        snd (handleRequest_jimeng env request) =
          Inr \<lparr>status = 502, statusText = [],
               headers = [(''Content-Type'', ''application/json''),
                          (''Access-Control-Allow-Origin'', ''*'')],
               body = JSON_stringify
                        (JObj [(''error'', JStr (''Error fetching from API: '' @ message e))])\<rparr>)
   \<and> (r \<in> set (fst (handleRequest_xai env request)) \<longrightarrow>
        snd (handleRequest_xai env request) =
          Inr \<lparr>status = 502, statusText = [],
               headers = [(''Content-Type'', ''application/json''),
                          (''Access-Control-Allow-Origin'', ''*'')],
               body = JSON_stringify
                        (JObj [(''error'', JStr (''Error fetching from xAI API: '' @ message e))])\<rparr>)"
proof (intro conjI impI)
  assume f: "fetch env r = Inl e"
  assume "r \<in> set (fst (handleRequest_jimeng env request))"
  then show "snd (handleRequest_jimeng env request) =
          Inr \<lparr>status = 502, statusText = [],
               headers = [(''Content-Type'', ''application/json''),
                          (''Access-Control-Allow-Origin'', ''*'')],
               body = JSON_stringify
                        (JObj [(''error'', JStr (''Error fetching from API: '' @ message e))])\<rparr>"
  proof (rule jimeng_sent)
    assume "handleRequest_jimeng env request =
       ([r], case relayImageResponse env r of
               Inl error \<Rightarrow> jsonError (''Error fetching from API: '' @ message error) 502
             | Inr x \<Rightarrow> Inr x)"
    with f show ?thesis by (simp add: relayImageResponse_def jsonError_eq)
  qed
next
  assume f: "fetch env r = Inl e"
    and p: "pathname (url request) = IMAGE_GENERATION_PATH" and m: "method request = ''POST''"
  assume "r \<in> set (fst (handleRequest_xai env request))"
  from this p m show "snd (handleRequest_xai env request) =
          Inr \<lparr>status = 502, statusText = [],
               headers = [(''Content-Type'', ''application/json''),
                          (''Access-Control-Allow-Origin'', ''*'')],
               body = JSON_stringify
                        (JObj [(''error'', JStr (''Error fetching from xAI API: '' @ message e))])\<rparr>"
  proof (rule xai_image_sent)
    assume "handleRequest_xai env request =
       ([r], case relayImageResponse env r of
               Inl error \<Rightarrow> jsonError (''Error fetching from xAI API: '' @ message error) 502
             | Inr x \<Rightarrow> Inr x)"
    with f show ?thesis by (simp add: relayImageResponse_def jsonError_eq)
  qed
qed

theorem C5_upstream_failure_502_witness:
  "pathname (url (image_request text_cat)) = IMAGE_GENERATION_PATH
   \<and> method (image_request text_cat) = ''POST''
   \<and> str_includes
        (or_empty (headers_get (request.headers (image_request text_cat)) ''Content-Type''))
        ''application/json''
   \<and> json (runtime text_cat value_cat (Inl connection_reset))
        (request.body (image_request text_cat)) = Inr value_cat
   \<and> fetch (runtime text_cat value_cat (Inl connection_reset))
        (hd (fst (handleRequest_jimeng (runtime text_cat value_cat (Inl connection_reset))
                   (image_request text_cat)))) = Inl connection_reset
   \<and> hd (fst (handleRequest_jimeng (runtime text_cat value_cat (Inl connection_reset))
                (image_request text_cat)))
       \<in> set (fst (handleRequest_jimeng (runtime text_cat value_cat (Inl connection_reset))
                (image_request text_cat)))
   \<and> snd (handleRequest_jimeng (runtime text_cat value_cat (Inl connection_reset))
         (image_request text_cat)) =
       Inr \<lparr>status = 502, statusText = [],
            headers = [(''Content-Type'', ''application/json''),
                       (''Access-Control-Allow-Origin'', ''*'')],
            body = JSON_stringify
                     (JObj [(''error'',
                             JStr ''Error fetching from API: connection reset by peer'')])\<rparr>
   \<and> hd (fst (handleRequest_xai (runtime text_cat value_cat (Inl connection_reset))
                (image_request text_cat)))
       \<in> set (fst (handleRequest_xai (runtime text_cat value_cat (Inl connection_reset))
                (image_request text_cat)))
   \<and> snd (handleRequest_xai (runtime text_cat value_cat (Inl connection_reset))
         (image_request text_cat)) =
       Inr \<lparr>status = 502, statusText = [],
            headers = [(''Content-Type'', ''application/json''),
                       (''Access-Control-Allow-Origin'', ''*'')],
            body = JSON_stringify
                     (JObj [(''error'',
                             JStr ''Error fetching from xAI API: connection reset by peer'')])\<rparr>"
proof -
  let ?E = "runtime text_cat value_cat (Inl connection_reset)"
  let ?R = "image_request text_cat"
  have p: "pathname (url ?R) = IMAGE_GENERATION_PATH" and m: "method ?R = ''POST''"
    by (simp_all add: image_request_def IMAGE_GENERATION_PATH_def)
  have c: "str_includes (or_empty (headers_get (request.headers ?R) ''Content-Type''))
             ''application/json''"
    by (simp add: image_request_def or_empty_def headers_get_def same_name_def lowercase_def
        lower_char_def)
  have b: "json ?E (request.body ?R) = Inr value_cat"
    by (simp add: runtime_def image_request_def)
  have f: "fetch ?E q = Inl connection_reset" for q
    by (simp add: runtime_def)
  have j: "hd (fst (handleRequest_jimeng ?E ?R)) \<in> set (fst (handleRequest_jimeng ?E ?R))"
    using sent_jimeng_cat by (rule hd_in_set)
  have x: "hd (fst (handleRequest_xai ?E ?R)) \<in> set (fst (handleRequest_xai ?E ?R))"
    using sent_xai_cat by (rule hd_in_set)
  have msg: "message connection_reset = ''connection reset by peer''"
    by (simp add: connection_reset_def)
  from p m c b f j x msg
    C5_upstream_failure_502 [OF p m f, of "hd (fst (handleRequest_jimeng ?E ?R))"]
    C5_upstream_failure_502 [OF p m f, of "hd (fst (handleRequest_xai ?E ?R))"]
  show ?thesis by simp
qed

section \<open>No exception escapes\<close>



section \<open>The required field\<close>

text \<open>
  Claim C4, as amended. In the jimeng variant, for every image-generation request whose
  content type contains \<^verbatim>\<open>application/json\<close> and whose body parses as JSON to a value
  other than null: if reading \<^verbatim>\<open>prompt\<close> from the parsed value gives a falsy value
  (undefined when the field is absent), the response is 400 with the JSON body
  \<^verbatim>\<open>{"error": "Missing required parameter: prompt"}\<close> and nothing is sent upstream. The body
  \<^verbatim>\<open>{}\<close> is such a request.
\<close>

theorem C4_missing_prompt_400:
  "pathname (url request) = IMAGE_GENERATION_PATH \<Longrightarrow> method request = ''POST'' \<Longrightarrow>
   str_includes (or_empty (headers_get (request.headers request) ''Content-Type''))
     ''application/json'' \<Longrightarrow>
   json env (request.body request) = Inr originalBody \<Longrightarrow>
   originalBody \<noteq> JNull \<Longrightarrow> originalBody \<noteq> JUndefined \<Longrightarrow>
   (\<forall>p. read_prop originalBody ''prompt'' = Inr p \<longrightarrow> \<not> truthy p) \<Longrightarrow>
     handleRequest_jimeng env request =
       ([], Inr \<lparr>status = 400, statusText = [],
                 headers = [(''Content-Type'', ''application/json''),
                            (''Access-Control-Allow-Origin'', ''*'')],
                 body = JSON_stringify
                          (JObj [(''error'', JStr ''Missing required parameter: prompt'')])\<rparr>)"
proof -
  assume p: "pathname (url request) = IMAGE_GENERATION_PATH" and m: "method request = ''POST''"
    and c: "str_includes (or_empty (headers_get (request.headers request) ''Content-Type''))
              ''application/json''"
    and b: "json env (request.body request) = Inr originalBody"
    and n: "originalBody \<noteq> JNull" "originalBody \<noteq> JUndefined"
    and f: "\<forall>p. read_prop originalBody ''prompt'' = Inr p \<longrightarrow> \<not> truthy p"
  from n obtain v where v: "read_prop originalBody ''prompt'' = Inr v"
    by (cases originalBody) simp_all
  with f have "\<not> truthy v" by simp
  with p m c b v show ?thesis
    by (simp add: handleRequest_jimeng_def handleRequest_try_jimeng_def
        handleImageGenerationRequest_jimeng_def jsonError_eq)
qed

theorem C4_missing_prompt_400_witness:
  "pathname (url (image_request text_empty)) = IMAGE_GENERATION_PATH
   \<and> method (image_request text_empty) = ''POST''
   \<and> str_includes
        (or_empty (headers_get (request.headers (image_request text_empty)) ''Content-Type''))
        ''application/json''
   \<and> json (runtime text_empty (JObj []) (Inr upstream_ok))
        (request.body (image_request text_empty)) = Inr (JObj [])
   \<and> read_prop (JObj []) ''prompt'' = Inr JUndefined
   \<and> handleRequest_jimeng (runtime text_empty (JObj []) (Inr upstream_ok))
        (image_request text_empty) =
       ([], Inr \<lparr>status = 400, statusText = [],
                 headers = [(''Content-Type'', ''application/json''),
                            (''Access-Control-Allow-Origin'', ''*'')],
                 body = JSON_stringify
                          (JObj [(''error'', JStr ''Missing required parameter: prompt'')])\<rparr>)"
proof -
  let ?E = "runtime text_empty (JObj []) (Inr upstream_ok)"
  let ?R = "image_request text_empty"
  have b: "json ?E (request.body ?R) = Inr (JObj [])"
    by (simp add: runtime_def image_request_facts)
  have n: "JObj [] \<noteq> JNull" "JObj [] \<noteq> JUndefined" by simp_all
  have f: "\<forall>p. read_prop (JObj []) ''prompt'' = Inr p \<longrightarrow> \<not> truthy p" by simp
  have r: "read_prop (JObj []) ''prompt'' = Inr JUndefined" by simp
  from r b
    C4_missing_prompt_400 [OF image_request_facts(2) image_request_facts(1)
      image_request_facts(3) b n f]
  show ?thesis by (simp add: image_request_facts)
qed

text \<open>
  The claim as stated covers every body that parses as JSON. The body \<^verbatim>\<open>null\<close> parses, and
  has no \<^verbatim>\<open>prompt\<close> field; reading \<^verbatim>\<open>originalBody.prompt\<close> raises a TypeError outside the
  inner handlers, and the response is the 500 of the outer handler, not a 400.
\<close>

theorem C4_null_body_counterexample:
  "str_includes
     (or_empty (headers_get (request.headers (image_request text_null)) ''Content-Type''))
     ''application/json''
   \<and> json (runtime text_null JNull (Inr upstream_ok))
        (request.body (image_request text_null)) = Inr JNull
   \<and> read_prop JNull ''prompt'' =
       Inl (Exn ''TypeError'' ''Cannot read properties of null (reading 'prompt')'')
   \<and> handleRequest_jimeng (runtime text_null JNull (Inr upstream_ok))
        (image_request text_null) =
       ([], Inr \<lparr>status = 500, statusText = [],
                 headers = [(''Content-Type'', ''application/json''),
                            (''Access-Control-Allow-Origin'', ''*'')],
                 body = JSON_stringify
                          (JObj [(''error'',
                                  JStr ''Internal Server Error: Cannot read properties of null (reading 'prompt')'')])\<rparr>)"
  by (simp add: image_request_facts runtime_def handleRequest_jimeng_def
      handleRequest_try_jimeng_def handleImageGenerationRequest_jimeng_def jsonError_eq)

section \<open>Generic forwarding\<close>





section \<open>Allow-list filtering\<close>

text \<open>
  What the filtering does achieve. Let the body of an image-generation request parse as a
  JSON object. The filtering loop raises no error on it, whatever keys it has, and a body
  that is forwarded is a new object with distinct keys, all of them in the allow-list. In
  the xAI variant its keys are exactly the allow-listed keys whose parsed value is not
  undefined, each with the parsed value. In the jimeng variant its keys are exactly the
  six allow-listed keys, and an allow-listed key whose parsed value is truthy, and
  \<^verbatim>\<open>sample_strength\<close> whenever its parsed value is not undefined, has the parsed value.
\<close>

lemma forwarded_body_allow_list:
  "json env (request.body request) = Inr (JObj kvs) \<Longrightarrow>
     (\<exists>fb. filterParams SUPPORTED_IMAGE_PARAMS_xai (JObj kvs) [] = Inr fb)
   \<and> (\<exists>fb. filterParams SUPPORTED_IMAGE_PARAMS_jimeng (JObj kvs) [] = Inr fb)
   \<and> (pathname (url request) = IMAGE_GENERATION_PATH \<and> method request = ''POST''
        \<and> r \<in> set (fst (handleRequest_xai env request)) \<longrightarrow>
        (\<exists>fb. request.body r = JSON_stringify (JObj fb) \<and> distinct (map fst fb)
           \<and> fst ` set fb =
               {k \<in> set [''model'', ''prompt'', ''n'', ''response_format''].
                  get_prop kvs k \<noteq> JUndefined}
           \<and> (\<forall>k \<in> fst ` set fb. get_prop fb k = get_prop kvs k)))
   \<and> (r \<in> set (fst (handleRequest_jimeng env request)) \<longrightarrow>
        (\<exists>fb. request.body r = JSON_stringify (JObj fb) \<and> distinct (map fst fb)
           \<and> fst ` set fb =
               set [''model'', ''prompt'', ''negativePrompt'', ''width'', ''height'',
                    ''sample_strength'']
           \<and> (\<forall>k \<in> fst ` set fb.
                 get_prop kvs k \<noteq> JUndefined
                 \<and> (truthy (get_prop kvs k) \<or> k = ''sample_strength'') \<longrightarrow>
                 get_prop fb k = get_prop kvs k)))"
proof (intro conjI impI)
  assume j: "json env (request.body request) = Inr (JObj kvs)"
  show "\<exists>fb. filterParams SUPPORTED_IMAGE_PARAMS_xai (JObj kvs) [] = Inr fb"
    by (simp add: filterParams_object)
  show "\<exists>fb. filterParams SUPPORTED_IMAGE_PARAMS_jimeng (JObj kvs) [] = Inr fb"
    by (simp add: filterParams_object)
  {
    assume "pathname (url request) = IMAGE_GENERATION_PATH \<and> method request = ''POST''
        \<and> r \<in> set (fst (handleRequest_xai env request))"
    then have b: "request.body r =
        JSON_stringify (JObj (fold (copyParam kvs) SUPPORTED_IMAGE_PARAMS_xai []))"
      using xai_forwarded_body [OF _ _ _ j] by simp
    let ?fb = "fold (copyParam kvs) SUPPORTED_IMAGE_PARAMS_xai []"
    have "distinct (map fst ?fb)" by (simp add: distinct_fold_copy)
    moreover have "fst ` set ?fb =
        {k \<in> set [''model'', ''prompt'', ''n'', ''response_format''].
           get_prop kvs k \<noteq> JUndefined}"
      by (simp only: keys_fold_copy SUPPORTED_IMAGE_PARAMS_xai_def) simp
    moreover have "\<forall>k \<in> fst ` set ?fb. get_prop ?fb k = get_prop kvs k"
      by (auto simp: keys_fold_copy get_prop_fold_copy)
    ultimately show "\<exists>fb. request.body r = JSON_stringify (JObj fb) \<and> distinct (map fst fb)
           \<and> fst ` set fb =
               {k \<in> set [''model'', ''prompt'', ''n'', ''response_format''].
                  get_prop kvs k \<noteq> JUndefined}
           \<and> (\<forall>k \<in> fst ` set fb. get_prop fb k = get_prop kvs k)"
      using b by blast
  }
  {
    assume a: "r \<in> set (fst (handleRequest_jimeng env request))"
    from jimeng_forwarded_body [OF a] j
    have t: "truthy (get_prop kvs ''prompt'')"
      and b: "request.body r = JSON_stringify (JObj (applyDefaults
          (fold (copyParam kvs) SUPPORTED_IMAGE_PARAMS_jimeng [])))"
      by auto
    let ?fb = "applyDefaults (fold (copyParam kvs) SUPPORTED_IMAGE_PARAMS_jimeng [])"
    have "distinct (map fst ?fb)"
      by (simp add: distinct_applyDefaults distinct_fold_copy)
    moreover note k = jimeng_keys [OF t]
    moreover have "\<forall>k \<in> fst ` set ?fb.
                 get_prop kvs k \<noteq> JUndefined
                 \<and> (truthy (get_prop kvs k) \<or> k = ''sample_strength'') \<longrightarrow>
                 get_prop ?fb k = get_prop kvs k"
      unfolding k using jimeng_values [of _ kvs] by blast
    moreover have "set SUPPORTED_IMAGE_PARAMS_jimeng =
        set [''model'', ''prompt'', ''negativePrompt'', ''width'', ''height'',
             ''sample_strength'']"
      by (simp only: SUPPORTED_IMAGE_PARAMS_jimeng_def)
    ultimately show "\<exists>fb. request.body r = JSON_stringify (JObj fb) \<and> distinct (map fst fb)
           \<and> fst ` set fb =
               set [''model'', ''prompt'', ''negativePrompt'', ''width'', ''height'',
                    ''sample_strength'']
           \<and> (\<forall>k \<in> fst ` set fb.
                 get_prop kvs k \<noteq> JUndefined
                 \<and> (truthy (get_prop kvs k) \<or> k = ''sample_strength'') \<longrightarrow>
                 get_prop fb k = get_prop kvs k)"
      using b by metis
  }
qed

text \<open>
  Claim C2 says that the forwarded body has only allow-listed keys and that every
  allow-listed key whose value in the parsed body is not undefined is copied with that
  value. The code does not do the second in the jimeng variant: for the body
  \<^verbatim>\<open>{"prompt":"cat","width":0,"sample_strength":0}\<close> the parsed \<^verbatim>\<open>width\<close> is 0, which is not
  undefined, and the forwarded body has \<^verbatim>\<open>width\<close> 1024, while the supplied \<^verbatim>\<open>sample_strength\<close>
  0 is kept. This is the defaulting by truthiness of claim C3.
\<close>

theorem C2_supplied_width_zero_replaced:
  "json (runtime text_zero value_zero (Inr upstream_ok)) (request.body (image_request text_zero)) =
     Inr (JObj [(''prompt'', JStr ''cat''), (''width'', JNum (Finite 0)),
                (''sample_strength'', JNum (Finite 0))])
   \<and> ''width'' \<in> set SUPPORTED_IMAGE_PARAMS_jimeng
   \<and> read_prop (JObj [(''prompt'', JStr ''cat''), (''width'', JNum (Finite 0)),
                      (''sample_strength'', JNum (Finite 0))]) ''width'' = Inr (JNum (Finite 0))
   \<and> JNum (Finite 0) \<noteq> JUndefined
   \<and> map request.body (fst (handleRequest_jimeng (runtime text_zero value_zero (Inr upstream_ok))
        (image_request text_zero))) =
       [JSON_stringify
          (JObj [(''prompt'', JStr ''cat''), (''width'', JNum (Finite 1024)),
                 (''sample_strength'', JNum (Finite 0)),
                 (''model'', JStr ''jimeng-3.0''), (''negativePrompt'', JStr []),
                 (''height'', JNum (Finite 1024))])]"
  using sent_body_jimeng_zero [of "Inr upstream_ok"]
  by (simp add: runtime_def image_request_facts value_zero_def SUPPORTED_IMAGE_PARAMS_jimeng_def)

section \<open>Defaulting\<close>

text \<open>
  Claim C3 says that a default is injected only for a key the client never supplied, and
  that a supplied value, falsy or not, is what is forwarded. The code does not do this:
  for the body \<^verbatim>\<open>{"prompt":"cat","model":"","height":0}\<close> the forwarded body has \<^verbatim>\<open>model\<close>
  \<^verbatim>\<open>"jimeng-3.0"\<close> and \<^verbatim>\<open>height\<close> 1024 in place of the supplied \<^verbatim>\<open>""\<close> and 0.
\<close>

theorem C3_supplied_falsy_values_replaced:
  "json (runtime text_falsy value_falsy (Inr upstream_ok))
     (request.body (image_request text_falsy)) =
     Inr (JObj [(''prompt'', JStr ''cat''), (''model'', JStr []), (''height'', JNum (Finite 0))])
   \<and> map request.body (fst (handleRequest_jimeng (runtime text_falsy value_falsy (Inr upstream_ok))
        (image_request text_falsy))) =
       [JSON_stringify
          (JObj [(''model'', JStr ''jimeng-3.0''), (''prompt'', JStr ''cat''),
                 (''height'', JNum (Finite 1024)), (''negativePrompt'', JStr []),
                 (''width'', JNum (Finite 1024)),
                 (''sample_strength'', JNum (Finite (1 / 2)))])]"
  using sent_body_jimeng_falsy [of "Inr upstream_ok"]
  by (simp add: runtime_def image_request_facts value_falsy_def)

text \<open>
  Claim C10. The defaulting step tests the fields differently. \<^verbatim>\<open>model\<close>, \<^verbatim>\<open>negativePrompt\<close>,
  \<^verbatim>\<open>width\<close> and \<^verbatim>\<open>height\<close> take their defaults (\<^verbatim>\<open>"jimeng-3.0"\<close>, \<^verbatim>\<open>""\<close>, 1024, 1024) whenever
  the filtered value is falsy, and keep it otherwise; \<^verbatim>\<open>sample_strength\<close> takes 0.5 only
  when it is undefined, and keeps any other value, 0 included. The same holds between the
  parsed body of a request and the body forwarded for it.
\<close>

theorem C10_defaulting_tests_differ:
  "get_prop (applyDefaults fb) ''model'' =
     (if truthy (get_prop fb ''model'') then get_prop fb ''model'' else JStr ''jimeng-3.0'')
   \<and> get_prop (applyDefaults fb) ''negativePrompt'' =
     (if truthy (get_prop fb ''negativePrompt'') then get_prop fb ''negativePrompt'' else JStr [])
   \<and> get_prop (applyDefaults fb) ''width'' =
     (if truthy (get_prop fb ''width'') then get_prop fb ''width'' else JNum (Finite 1024))
   \<and> get_prop (applyDefaults fb) ''height'' =
     (if truthy (get_prop fb ''height'') then get_prop fb ''height'' else JNum (Finite 1024))
   \<and> get_prop (applyDefaults fb) ''sample_strength'' =
     (if get_prop fb ''sample_strength'' = JUndefined then JNum (Finite (1 / 2))
      else get_prop fb ''sample_strength'')
   \<and> (r \<in> set (fst (handleRequest_jimeng env request))
        \<and> json env (request.body request) = Inr (JObj kvs) \<longrightarrow>
       (\<exists>sent. request.body r = JSON_stringify (JObj sent)
          \<and> get_prop sent ''model'' =
             (if truthy (get_prop kvs ''model'') then get_prop kvs ''model''
              else JStr ''jimeng-3.0'')
          \<and> get_prop sent ''negativePrompt'' =
             (if truthy (get_prop kvs ''negativePrompt'') then get_prop kvs ''negativePrompt''
              else JStr [])
          \<and> get_prop sent ''width'' =
             (if truthy (get_prop kvs ''width'') then get_prop kvs ''width''
              else JNum (Finite 1024))
          \<and> get_prop sent ''height'' =
             (if truthy (get_prop kvs ''height'') then get_prop kvs ''height''
              else JNum (Finite 1024))
          \<and> get_prop sent ''sample_strength'' =
             (if get_prop kvs ''sample_strength'' = JUndefined then JNum (Finite (1 / 2))
              else get_prop kvs ''sample_strength'')))"
proof -
  {
    assume a: "r \<in> set (fst (handleRequest_jimeng env request))"
      and j: "json env (request.body request) = Inr (JObj kvs)"
    let ?fb = "fold (copyParam kvs) SUPPORTED_IMAGE_PARAMS_jimeng []"
    from jimeng_forwarded_body [OF a] j
    have b: "request.body r = JSON_stringify (JObj (applyDefaults ?fb))" by auto
    have f: "get_prop ?fb ''model'' = get_prop kvs ''model''"
      "get_prop ?fb ''negativePrompt'' = get_prop kvs ''negativePrompt''"
      "get_prop ?fb ''width'' = get_prop kvs ''width''"
      "get_prop ?fb ''height'' = get_prop kvs ''height''"
      "get_prop ?fb ''sample_strength'' = get_prop kvs ''sample_strength''"
      by (simp_all add: get_prop_filtered jimeng_supported)
    have "\<exists>sent. request.body r = JSON_stringify (JObj sent)
          \<and> get_prop sent ''model'' =
             (if truthy (get_prop kvs ''model'') then get_prop kvs ''model''
              else JStr ''jimeng-3.0'')
          \<and> get_prop sent ''negativePrompt'' =
             (if truthy (get_prop kvs ''negativePrompt'') then get_prop kvs ''negativePrompt''
              else JStr [])
          \<and> get_prop sent ''width'' =
             (if truthy (get_prop kvs ''width'') then get_prop kvs ''width''
              else JNum (Finite 1024))
          \<and> get_prop sent ''height'' =
             (if truthy (get_prop kvs ''height'') then get_prop kvs ''height''
              else JNum (Finite 1024))
          \<and> get_prop sent ''sample_strength'' =
             (if get_prop kvs ''sample_strength'' = JUndefined then JNum (Finite (1 / 2))
              else get_prop kvs ''sample_strength'')"
      by (rule exI [of _ "applyDefaults ?fb"])
        (simp only: b get_prop_applyDefaults_model get_prop_applyDefaults_negativePrompt
          get_prop_applyDefaults_width get_prop_applyDefaults_height
          get_prop_applyDefaults_sample_strength f)
  }
  then show ?thesis
    by (simp only: get_prop_applyDefaults_model get_prop_applyDefaults_negativePrompt
          get_prop_applyDefaults_width get_prop_applyDefaults_height
          get_prop_applyDefaults_sample_strength) blast
qed

theorem C10_defaulting_tests_differ_witness:
  "hd (fst (handleRequest_jimeng (runtime text_all_falsy value_all_falsy (Inr upstream_ok))
             (image_request text_all_falsy)))
     \<in> set (fst (handleRequest_jimeng (runtime text_all_falsy value_all_falsy (Inr upstream_ok))
             (image_request text_all_falsy)))
   \<and> json (runtime text_all_falsy value_all_falsy (Inr upstream_ok))
        (request.body (image_request text_all_falsy)) =
       Inr (JObj [(''prompt'', JStr ''cat''), (''model'', JStr []),
                  (''negativePrompt'', JStr []), (''width'', JNum (Finite 0)),
                  (''height'', JNum (Finite 0)), (''sample_strength'', JNum (Finite 0))])
   \<and> (\<exists>sent. request.body
          (hd (fst (handleRequest_jimeng (runtime text_all_falsy value_all_falsy
                (Inr upstream_ok)) (image_request text_all_falsy)))) =
          JSON_stringify (JObj sent)
        \<and> get_prop sent ''model'' = JStr ''jimeng-3.0''
        \<and> get_prop sent ''negativePrompt'' = JStr []
        \<and> get_prop sent ''width'' = JNum (Finite 1024)
        \<and> get_prop sent ''height'' = JNum (Finite 1024)
        \<and> get_prop sent ''sample_strength'' = JNum (Finite 0))
   \<and> get_prop (applyDefaults [(''model'', JStr []), (''sample_strength'', JNum (Finite 0))])
        ''model'' = JStr ''jimeng-3.0''
   \<and> get_prop (applyDefaults [(''model'', JStr []), (''sample_strength'', JNum (Finite 0))])
        ''sample_strength'' = JNum (Finite 0)"
proof -
  let ?E = "runtime text_all_falsy value_all_falsy (Inr upstream_ok)"
  let ?R = "image_request text_all_falsy"
  let ?kvs = "[(''prompt'', JStr ''cat''), (''model'', JStr []),
                  (''negativePrompt'', JStr []), (''width'', JNum (Finite 0)),
                  (''height'', JNum (Finite 0)), (''sample_strength'', JNum (Finite 0))]"
  have j: "json ?E (request.body ?R) = Inr (JObj ?kvs)"
    by (simp add: runtime_def image_request_facts value_all_falsy_def)
  have m: "hd (fst (handleRequest_jimeng ?E ?R)) \<in> set (fst (handleRequest_jimeng ?E ?R))"
    using hd_map_body [OF sent_body_jimeng_all_falsy [of "Inr upstream_ok"]] by simp
  have v: "get_prop ?kvs ''model'' = JStr []" "get_prop ?kvs ''negativePrompt'' = JStr []"
    "get_prop ?kvs ''width'' = JNum (Finite 0)" "get_prop ?kvs ''height'' = JNum (Finite 0)"
    "get_prop ?kvs ''sample_strength'' = JNum (Finite 0)"
    "get_prop [(''model'', JStr []), (''sample_strength'', JNum (Finite 0))] ''model'' = JStr []"
    "get_prop [(''model'', JStr []), (''sample_strength'', JNum (Finite 0))] ''sample_strength''
       = JNum (Finite 0)"
    by (simp_all add: get_prop_def)
  note t = C10_defaulting_tests_differ
    [of "[(''model'', JStr []), (''sample_strength'', JNum (Finite 0))]"
        "hd (fst (handleRequest_jimeng ?E ?R))" ?E ?R ?kvs]
  from t m j show ?thesis by (simp add: v)
qed

end
